theory Spec2Isabelle
  imports Main "HOL-Library.Word"
begin

section \<open>Values, errors and the logger\<close>

text \<open>
  A Go \<open>interface{}\<close> value as it occurs in a decoded configuration: the nil interface, a
  string, an integer, a boolean, a slice, a nested map, or a value of any other dynamic
  type, of which only the type name (what \<open>%T\<close> prints) is kept.
\<close>

datatype go_value =
    GoNil
  | GoString string
  | GoInt int
  | GoBool bool
  | GoSlice "go_value list"
  | GoMap "(go_value \<times> go_value) list"
  | GoOther string

text \<open>\<open>map[interface{}]interface{}\<close>: a key may be present with the value nil.\<close>

type_synonym config = "go_value \<rightharpoonup> go_value"

text \<open>What \<open>fmt\<close> prints for \<open>%T\<close>.\<close>

fun type_name :: "go_value \<Rightarrow> string" where
  "type_name GoNil = ''<nil>''"
| "type_name (GoString _) = ''string''"
| "type_name (GoInt _) = ''int''"
| "type_name (GoBool _) = ''bool''"
| "type_name (GoSlice _) = ''[]interface {}''"
| "type_name (GoMap _) = ''map[interface {}]interface {}''"
| "type_name (GoOther t) = t"

datatype num_err = ErrSyntax | ErrRange

text \<open>
  The error values of the package: \<open>errors.New(msg)\<close>, \<open>fmt.Errorf\<close> with its formatted
  message, and \<open>*strconv.NumError{Func, Num, Err}\<close>.
\<close>

datatype go_error =
    ErrorsNew string
  | Errorf string
  | NumError string string num_err

text \<open>
  A \<open>logr.Logger\<close>: its verbosity level (\<open>V\<close> adds to it) and the key/value pairs bound
  by \<open>WithValues\<close>. What a call of \<open>Info\<close> or \<open>Error\<close> hands to the sink is a log entry;
  the functions below return the entries they emit, in order.
\<close>

record logger =
  lg_level :: nat
  lg_values :: "go_value list"

datatype log_entry =
    InfoEntry logger string "go_value list"
  | ErrorEntry logger go_error string

definition V :: "nat \<Rightarrow> logger \<Rightarrow> logger" where
  "V n l = l\<lparr>lg_level := lg_level l + n\<rparr>"

definition WithValues :: "logger \<Rightarrow> go_value list \<Rightarrow> logger" where
  "WithValues l kvs = l\<lparr>lg_values := lg_values l @ kvs\<rparr>"

section \<open>Component type names\<close>

text \<open>
  Modelled from the spec: \<open>parser.ComponentType\<close> lives in the parent package, outside
  the file under verification. The spec describes it as the normalization that strips any
  "/"-qualifier suffix of a component name, so that "otlp/2" and "otlp" share one key.
\<close>

definition ComponentType :: "string \<Rightarrow> string" where
  "ComponentType name = takeWhile (\<lambda>c. c \<noteq> CHR ''/'') name"

section \<open>The two registries\<close>

text \<open>
  A builder is a Go function value, so it may be nil: \<open>None\<close> is the nil builder. The
  parser instances a builder returns are interface values of other packages; they stay
  abstract (\<open>'p\<close> for \<open>parser.ComponentPortParser\<close>, \<open>'a\<close> for \<open>AuthzParser\<close>).
\<close>

type_synonym 'p builder = "(logger \<Rightarrow> string \<Rightarrow> config \<Rightarrow> 'p) option"

text \<open>The package-level variables \<open>registry\<close> and \<open>authzRegistry\<close>.\<close>

record ('p, 'a) globals =
  registry :: "string \<rightharpoonup> 'p builder"
  authzRegistry :: "string \<rightharpoonup> 'a builder"

text \<open>Both tables start as \<open>make(map[string]...)\<close>, that is, empty.\<close>

definition init_globals :: "('p, 'a) globals" where
  "init_globals = \<lparr>registry = Map.empty, authzRegistry = Map.empty\<rparr>"

text \<open>Reading a Go map at a missing key gives the zero value, here the nil builder.\<close>

definition BuilderFor :: "('p, 'a) globals \<Rightarrow> string \<Rightarrow> 'p builder" where
  "BuilderFor g name =
     (case registry g (ComponentType name) of None \<Rightarrow> None | Some b \<Rightarrow> b)"

definition For ::
  "('p, 'a) globals \<Rightarrow> logger \<Rightarrow> string \<Rightarrow> config \<Rightarrow> go_error + 'p" where
  "For g lg name cfg =
     (case BuilderFor g name of
        None \<Rightarrow> Inl (Errorf (''no builders for '' @ name))
      | Some build \<Rightarrow> Inr (build lg name cfg))"

definition Register :: "('p, 'a) globals \<Rightarrow> string \<Rightarrow> 'p builder \<Rightarrow> ('p, 'a) globals" where
  "Register g name b = g\<lparr>registry := (registry g)(name \<mapsto> b)\<rparr>"

definition IsRegistered :: "('p, 'a) globals \<Rightarrow> string \<Rightarrow> bool" where
  "IsRegistered g name = (case registry g name of None \<Rightarrow> False | Some _ \<Rightarrow> True)"

definition AuthzBuilderFor :: "('p, 'a) globals \<Rightarrow> string \<Rightarrow> 'a builder" where
  "AuthzBuilderFor g name =
     (case authzRegistry g (ComponentType name) of None \<Rightarrow> None | Some b \<Rightarrow> b)"

definition AuthzFor ::
  "('p, 'a) globals \<Rightarrow> logger \<Rightarrow> string \<Rightarrow> config \<Rightarrow> go_error + 'a" where
  "AuthzFor g lg name cfg =
     (case AuthzBuilderFor g name of
        None \<Rightarrow> Inl (Errorf (''no builders for '' @ name))
      | Some build \<Rightarrow> Inr (build lg name cfg))"

definition AuthzRegister ::
  "('p, 'a) globals \<Rightarrow> string \<Rightarrow> 'a builder \<Rightarrow> ('p, 'a) globals" where
  "AuthzRegister g name b = g\<lparr>authzRegistry := (authzRegistry g)(name \<mapsto> b)\<rparr>"

section \<open>The port of an endpoint\<close>

subsection \<open>The library functions \<open>portFromEndpoint\<close> calls\<close>

definition is_digit :: "char \<Rightarrow> bool" where
  "is_digit c = (48 \<le> (of_char c :: nat) \<and> (of_char c :: nat) \<le> 57)"

definition digit_val :: "char \<Rightarrow> nat" where
  "digit_val c = of_char c - 48"

text \<open>
  \<open>regexp.MustCompile(":[0-9]+").FindString\<close>: the leftmost match, its digit run as long
  as possible; \<open>None\<close> when \<open>MatchString\<close> is false. (\<open>FindString\<close> itself returns the
  empty string then; the code only calls it after \<open>MatchString\<close>.)
\<close>

fun FindString :: "string \<Rightarrow> string option" where
  "FindString [] = None"
| "FindString (c # cs) =
     (if c = CHR '':'' \<and> cs \<noteq> [] \<and> is_digit (hd cs)
      then Some (c # takeWhile is_digit cs)
      else FindString cs)"

definition MatchString :: "string \<Rightarrow> bool" where
  "MatchString s = (FindString s \<noteq> None)"

text \<open>\<open>strings.Replace(s, ":", "", -1)\<close>: every colon removed.\<close>

definition remove_colons :: "string \<Rightarrow> string" where
  "remove_colons s = filter (\<lambda>c. c \<noteq> CHR '':'') s"

text \<open>
  The loop of \<open>strconv.ParseUint(s, 10, bitSize)\<close> over the bytes of \<open>s\<close>, the value so
  far in \<open>n\<close> (a uint64, its wrap-around written out). A byte that is no decimal digit
  is a syntax error (in base 10 a letter is a digit value of 10 or more, and an
  underscore is only legal in base 0).
\<close>

definition maxUint64 :: nat where
  "maxUint64 = 2 ^ 64 - 1"

fun parseUint_loop :: "string \<Rightarrow> nat \<Rightarrow> nat \<Rightarrow> string \<Rightarrow> nat \<times> go_error option" where
  "parseUint_loop s0 maxVal n [] = (n, None)"
| "parseUint_loop s0 maxVal n (c # cs) =
     (if \<not> is_digit c then (0, Some (NumError ''ParseUint'' s0 ErrSyntax))
      else if n \<ge> maxUint64 div 10 + 1 then (maxVal, Some (NumError ''ParseUint'' s0 ErrRange))
      else
        let n10 = (n * 10) mod 2 ^ 64;
            n1 = (n10 + digit_val c) mod 2 ^ 64
        in if n1 < n10 \<or> n1 > maxVal then (maxVal, Some (NumError ''ParseUint'' s0 ErrRange))
           else parseUint_loop s0 maxVal n1 cs)"

definition ParseUint :: "string \<Rightarrow> nat \<Rightarrow> nat \<times> go_error option" where
  "ParseUint s bitSize =
     (if s = [] then (0, Some (NumError ''ParseUint'' s ErrSyntax))
      else parseUint_loop s (2 ^ bitSize - 1) 0 s)"

text \<open>
  \<open>strconv.ParseInt(s, 10, bitSize)\<close>: an optional sign, then \<open>ParseUint\<close>; a value
  outside the signed range of \<open>bitSize\<close> bits is a range error, returned with the
  nearest bound.
\<close>

definition ParseInt :: "string \<Rightarrow> nat \<Rightarrow> int \<times> go_error option" where
  "ParseInt s bitSize =
     (if s = [] then (0, Some (NumError ''ParseInt'' s ErrSyntax))
      else
        let neg = (hd s = CHR ''-'');
            s' = (if hd s = CHR ''+'' \<or> hd s = CHR ''-'' then tl s else s);
            (un, err) = ParseUint s' bitSize;
            cutoff = (2::nat) ^ (bitSize - 1)
        in if err \<noteq> None \<and> err \<noteq> Some (NumError ''ParseUint'' s' ErrRange)
           then (0, Some (NumError ''ParseInt'' s ErrSyntax))
           else if \<not> neg \<and> un \<ge> cutoff then (int cutoff - 1, Some (NumError ''ParseInt'' s ErrRange))
           else if neg \<and> un > cutoff then (- int cutoff, Some (NumError ''ParseInt'' s ErrRange))
           else (if neg then - int un else int un, None))"

subsection \<open>The functions of the package\<close>

definition endpointKey :: string where
  "endpointKey = ''endpoint''"

text \<open>
  \<open>portFromEndpoint\<close>: \<open>port\<close> is an int64 that starts at 0 and is only assigned when
  the pattern matches; the result is \<open>int32(port)\<close>, the low 32 bits.
\<close>

definition portFromEndpoint :: "string \<Rightarrow> go_error + 32 word" where
  "portFromEndpoint endpoint =
     (let (port, err) =
            (if MatchString endpoint
             then ParseInt (remove_colons (the (FindString endpoint))) 32
             else (0, None))
      in case err of
           Some e \<Rightarrow> Inl e
         | None \<Rightarrow>
             if port = 0 then Inl (ErrorsNew ''port should not be empty'')
             else Inr (word_of_int port))"

definition getAddressFromConfig ::
  "logger \<Rightarrow> string \<Rightarrow> string \<Rightarrow> config \<Rightarrow> go_value \<times> log_entry list" where
  "getAddressFromConfig lg name key cfg =
     (case cfg (GoString key) of
        None \<Rightarrow>
          (GoNil, [InfoEntry (V 2 lg) ''%s exporter doesn't have an %s'' [GoString name, GoString key]])
      | Some endpoint \<Rightarrow> (endpoint, []))"

text \<open>
  \<open>corev1.ServicePort\<close>, the two fields the package sets; every other field keeps its
  zero value.
\<close>

record ServicePort =
  Name :: string
  Port :: "32 word"

text \<open>
  \<open>singlePortFromConfigEndpoint\<close>. \<open>naming.PortName\<close> belongs to another package and is
  a parameter here. The result is the pointer returned (\<open>None\<close> for nil) and the log
  entries emitted.
\<close>

definition singlePortFromConfigEndpoint ::
  "(string \<Rightarrow> 32 word \<Rightarrow> string) \<Rightarrow> logger \<Rightarrow> string \<Rightarrow> config
     \<Rightarrow> ServicePort option \<times> log_entry list" where
  "singlePortFromConfigEndpoint PortName lg name cfg =
     (let (endpoint, out) = getAddressFromConfig lg name endpointKey cfg
      in case endpoint of
           GoNil \<Rightarrow> (None, out)
         | GoString e \<Rightarrow>
             (case portFromEndpoint e of
                Inl err \<Rightarrow>
                  (None,
                   out @ [ErrorEntry (WithValues lg [GoString endpointKey, GoString e]) err
                            ''couldn't parse the endpoint's port''])
              | Inr port \<Rightarrow> (Some \<lparr>Name = PortName name port, Port = port\<rparr>, out))
         | _ \<Rightarrow>
             (None,
              out @ [ErrorEntry (WithValues lg [GoString endpointKey, endpoint])
                       (Errorf (''unrecognized type '' @ type_name endpoint))
                       ''exporter's endpoint isn't a string'']))"

section \<open>Vocabulary for stating the properties\<close>

text \<open>The base-10 value of a run of digits, most significant digit first.\<close>

definition dec_value :: "string \<Rightarrow> nat" where
  "dec_value ds = foldl (\<lambda>n c. 10 * n + digit_val c) 0 ds"

text \<open>
  An endpoint has a colon-digits run when some colon is directly followed by a decimal
  digit.
\<close>

fun has_colon_digits :: "string \<Rightarrow> bool" where
  "has_colon_digits [] = False"
| "has_colon_digits [c] = False"
| "has_colon_digits (c # d # cs) =
     ((c = CHR '':'' \<and> is_digit d) \<or> has_colon_digits (d # cs))"

text \<open>
  \<open>first_run e pre ds rest\<close>: the endpoint \<open>e\<close> reads \<open>pre\<close>, a colon, the digits
  \<open>ds\<close> and \<open>rest\<close>, where \<open>ds\<close> is a maximal non-empty digit run and no colon inside
  \<open>pre\<close> is followed by a digit: the colon after \<open>pre\<close> starts the leftmost
  colon-digits run of \<open>e\<close>.
\<close>

definition first_run :: "string \<Rightarrow> string \<Rightarrow> string \<Rightarrow> string \<Rightarrow> bool" where
  "first_run e pre ds rest =
     (e = pre @ CHR '':'' # ds @ rest \<and> ds \<noteq> [] \<and> list_all is_digit ds \<and>
      (case rest of [] \<Rightarrow> True | r # _ \<Rightarrow> \<not> is_digit r) \<and>
      \<not> has_colon_digits pre)"

section \<open>Auxiliary facts\<close>

lemma has_colon_digits_iff:
  "has_colon_digits e \<longleftrightarrow> (\<exists>pre d rest. e = pre @ CHR '':'' # d # rest \<and> is_digit d)"
proof (induction e rule: has_colon_digits.induct)
  case 1
  then show ?case by simp
next
  case (2 c)
  then show ?case by (auto simp: append_eq_Cons_conv)
next
  case (3 c d cs)
  show ?case
  proof
    assume "has_colon_digits (c # d # cs)"
    then consider "c = CHR '':'' \<and> is_digit d" | "has_colon_digits (d # cs)" by auto
    then show "\<exists>pre d' rest. c # d # cs = pre @ CHR '':'' # d' # rest \<and> is_digit d'"
    proof cases
      case 1
      then have "c # d # cs = [] @ CHR '':'' # d # cs \<and> is_digit d" by simp
      then show ?thesis by blast
    next
      case 2
      with 3 obtain pre d' rest where "d # cs = pre @ CHR '':'' # d' # rest" "is_digit d'"
        by auto
      then have "c # d # cs = (c # pre) @ CHR '':'' # d' # rest \<and> is_digit d'" by simp
      then show ?thesis by blast
    qed
  next
    assume "\<exists>pre d' rest. c # d # cs = pre @ CHR '':'' # d' # rest \<and> is_digit d'"
    then obtain pre d' rest where e: "c # d # cs = pre @ CHR '':'' # d' # rest" and dg: "is_digit d'"
      by auto
    show "has_colon_digits (c # d # cs)"
    proof (cases pre)
      case Nil
      with e dg show ?thesis by simp
    next
      case (Cons p ps)
      with e have "d # cs = ps @ CHR '':'' # d' # rest" by simp
      with dg have "\<exists>pre d' rest. d # cs = pre @ CHR '':'' # d' # rest \<and> is_digit d'"
        by blast
      with 3 have "has_colon_digits (d # cs)" by simp
      then show ?thesis by simp
    qed
  qed
qed

lemma colon_not_digit: "\<not> is_digit CHR '':''"
  by (simp add: is_digit_def)

lemma FindString_None_iff: "FindString e = None \<longleftrightarrow> \<not> has_colon_digits e"
proof (induction e rule: has_colon_digits.induct)
  case 1
  then show ?case by simp
next
  case (2 c)
  then show ?case by simp
next
  case (3 c d cs)
  then show ?case by simp
qed

lemma has_colon_digits_tl: "has_colon_digits cs \<Longrightarrow> has_colon_digits (c # cs)"
  by (cases cs) auto

lemma takeWhile_digits_run:
  "list_all is_digit ds \<Longrightarrow> (case rest of [] \<Rightarrow> True | r # _ \<Rightarrow> \<not> is_digit r)
     \<Longrightarrow> takeWhile is_digit (ds @ rest) = ds"
  by (induction ds) (auto split: list.splits)

lemma FindString_first_run:
  assumes "first_run e pre ds rest"
  shows "FindString e = Some (CHR '':'' # ds)"
proof -
  from assms have ds: "ds \<noteq> []" "list_all is_digit ds"
    and rest: "(case rest of [] \<Rightarrow> True | r # _ \<Rightarrow> \<not> is_digit r)"
    and e: "e = pre @ CHR '':'' # ds @ rest" and pre: "\<not> has_colon_digits pre"
    by (auto simp: first_run_def)
  from ds have hd: "is_digit (hd (ds @ rest))" by (cases ds) auto
  from pre have "FindString (pre @ CHR '':'' # ds @ rest) = Some (CHR '':'' # ds)"
  proof (induction pre)
    case Nil
    with ds hd rest show ?case by (simp add: takeWhile_digits_run)
  next
    case (Cons p ps)
    from Cons.prems have ps: "\<not> has_colon_digits ps" using has_colon_digits_tl by blast
    have "\<not> (p = CHR '':'' \<and> is_digit (hd (ps @ CHR '':'' # ds @ rest)))"
    proof (cases ps)
      case Nil
      then show ?thesis by (simp add: colon_not_digit)
    next
      case (Cons q qs)
      with Cons.prems show ?thesis by auto
    qed
    with Cons.IH [OF ps] show ?case by auto
  qed
  with e show ?thesis by simp
qed

lemma foldl_dec_ge: "n \<le> foldl (\<lambda>n c. 10 * n + digit_val c) n cs"
proof (induction cs arbitrary: n)
  case Nil
  then show ?case by simp
next
  case (Cons c cs)
  have "n \<le> 10 * n + digit_val c" by simp
  also have "\<dots> \<le> foldl (\<lambda>n c. 10 * n + digit_val c) (10 * n + digit_val c) cs"
    by (rule Cons.IH)
  finally show ?case by simp
qed

lemma parseUint_loop_digits:
  assumes "list_all is_digit cs" and "n \<le> 2 ^ 32 - 1"
  shows "parseUint_loop s0 (2 ^ 32 - 1) n cs =
           (if foldl (\<lambda>n c. 10 * n + digit_val c) n cs \<le> 2 ^ 32 - 1
            then (foldl (\<lambda>n c. 10 * n + digit_val c) n cs, None)
            else (2 ^ 32 - 1, Some (NumError ''ParseUint'' s0 ErrRange)))"
  using assms
proof (induction cs arbitrary: n)
  case Nil
  then show ?case by simp
next
  case (Cons c cs)
  let ?n1 = "10 * n + digit_val c"
  from Cons.prems have dc: "is_digit c" and dcs: "list_all is_digit cs" by simp_all
  from dc have dv: "digit_val c \<le> 9" by (auto simp: is_digit_def digit_val_def)
  from Cons.prems(2) have n: "n \<le> 4294967295" by simp
  from n have cut: "\<not> n \<ge> maxUint64 div 10 + 1" by (simp add: maxUint64_def)
  from n have m10: "(n * 10) mod 2 ^ 64 = n * 10" by simp
  from n dv have m1: "(n * 10 + digit_val c) mod 2 ^ 64 = n * 10 + digit_val c" by simp
  show ?case
  proof (cases "?n1 \<le> 2 ^ 32 - 1")
    case True
    with dc cut m10 m1 Cons.IH [OF dcs True] show ?thesis
      by (simp add: Let_def mult.commute)
  next
    case False
    have "?n1 \<le> foldl (\<lambda>n c. 10 * n + digit_val c) ?n1 cs" by (rule foldl_dec_ge)
    with False have "\<not> foldl (\<lambda>n c. 10 * n + digit_val c) ?n1 cs \<le> 2 ^ 32 - 1" by linarith
    with False dc cut m10 m1 show ?thesis
      by (simp add: Let_def mult.commute)
  qed
qed

lemma digit_not_sign: "is_digit c \<Longrightarrow> c \<noteq> CHR ''+'' \<and> c \<noteq> CHR ''-'' \<and> c \<noteq> CHR '':''"
  by (auto simp: is_digit_def)

lemma ParseInt_digits:
  assumes "ds \<noteq> []" and "list_all is_digit ds"
  shows "ParseInt ds 32 =
           (if dec_value ds < 2 ^ 31 then (int (dec_value ds), None)
            else (2 ^ 31 - 1, Some (NumError ''ParseInt'' ds ErrRange)))"
proof -
  from assms have hd: "hd ds \<noteq> CHR ''+''" "hd ds \<noteq> CHR ''-''"
    using digit_not_sign by (cases ds; simp)+
  have pu: "ParseUint ds 32 =
           (if dec_value ds \<le> 2 ^ 32 - 1 then (dec_value ds, None)
            else (2 ^ 32 - 1, Some (NumError ''ParseUint'' ds ErrRange)))"
    using assms parseUint_loop_digits [of ds 0 ds]
    by (simp add: ParseUint_def dec_value_def)
  show ?thesis
  proof (cases "dec_value ds \<le> 2 ^ 32 - 1")
    case True
    with pu hd assms(1) show ?thesis by (simp add: ParseInt_def Let_def)
  next
    case False
    with pu hd assms(1) show ?thesis by (simp add: ParseInt_def Let_def)
  qed
qed

lemma remove_colons_run: "list_all is_digit ds \<Longrightarrow> remove_colons (CHR '':'' # ds) = ds"
  using digit_not_sign by (induction ds) (auto simp: remove_colons_def)

lemma portFromEndpoint_first_run:
  assumes "first_run e pre ds rest"
  shows "portFromEndpoint e =
           (if 2 ^ 31 \<le> dec_value ds then Inl (NumError ''ParseInt'' ds ErrRange)
            else if dec_value ds = 0 then Inl (ErrorsNew ''port should not be empty'')
            else Inr (word_of_nat (dec_value ds)))"
proof -
  from assms have ds: "ds \<noteq> []" "list_all is_digit ds" by (auto simp: first_run_def)
  have fs: "FindString e = Some (CHR '':'' # ds)" by (rule FindString_first_run [OF assms])
  then have ms: "MatchString e" by (simp add: MatchString_def)
  from ms fs ds show ?thesis
    by (simp add: portFromEndpoint_def remove_colons_run ParseInt_digits)
qed

lemma portFromEndpoint_no_match:
  assumes "\<not> has_colon_digits e"
  shows "portFromEndpoint e = Inl (ErrorsNew ''port should not be empty'')"
proof -
  from assms have "\<not> MatchString e" by (simp add: MatchString_def FindString_None_iff)
  then show ?thesis by (simp add: portFromEndpoint_def)
qed

lemma first_run_exists:
  "has_colon_digits e \<Longrightarrow> \<exists>pre ds rest. first_run e pre ds rest"
proof (induction e rule: has_colon_digits.induct)
  case 1
  then show ?case by simp
next
  case (2 c)
  then show ?case by simp
next
  case (3 c d cs)
  show ?case
  proof (cases "c = CHR '':'' \<and> is_digit d")
    case True
    let ?ds = "takeWhile is_digit (d # cs)" and ?rest = "dropWhile is_digit (d # cs)"
    have "list_all is_digit ?ds" by (simp add: list_all_iff) (meson set_takeWhileD)
    moreover have "case ?rest of [] \<Rightarrow> True | r # _ \<Rightarrow> \<not> is_digit r"
      using hd_dropWhile [of is_digit "d # cs"] by (auto split: list.splits)
    moreover from True have "?ds \<noteq> []" by simp
    ultimately have "first_run (c # d # cs) [] ?ds ?rest"
      using True by (simp add: first_run_def del: takeWhile.simps dropWhile.simps)
    then show ?thesis by blast
  next
    case False
    with 3 obtain pre ds rest where fr: "first_run (d # cs) pre ds rest" by auto
    have "first_run (c # d # cs) (c # pre) ds rest"
    proof (cases pre)
      case Nil
      with fr False show ?thesis by (auto simp: first_run_def)
    next
      case (Cons p ps)
      with fr False show ?thesis by (auto simp: first_run_def)
    qed
    then show ?thesis by blast
  qed
qed

lemma sint_word_of_nat_32: "n < 2 ^ 31 \<Longrightarrow> sint (word_of_nat n :: 32 word) = int n"
  by (simp add: signed_of_nat signed_take_bit_int_eq_self)

lemma portFromEndpoint_Inr_run:
  assumes "portFromEndpoint e = Inr p"
  shows "\<exists>pre ds rest. first_run e pre ds rest \<and> 0 < dec_value ds \<and> dec_value ds < 2 ^ 31
           \<and> p = word_of_nat (dec_value ds)"
proof -
  have "has_colon_digits e"
  proof (rule ccontr)
    assume "\<not> has_colon_digits e"
    then have "portFromEndpoint e = Inl (ErrorsNew ''port should not be empty'')"
      by (rule portFromEndpoint_no_match)
    with assms show False by simp
  qed
  then obtain pre ds rest where fr: "first_run e pre ds rest"
    using first_run_exists by blast
  from portFromEndpoint_first_run [OF fr] assms
  have "0 < dec_value ds \<and> dec_value ds < 2 ^ 31 \<and> p = word_of_nat (dec_value ds)"
    by (auto split: if_splits)
  with fr show ?thesis by blast
qed

lemma portFromEndpoint_Inr_sint:
  assumes "portFromEndpoint e = Inr p"
  shows "1 \<le> sint p \<and> sint p \<le> 2147483647"
proof -
  from portFromEndpoint_Inr_run [OF assms] obtain ds where
    d: "0 < dec_value ds" "dec_value ds < 2 ^ 31" "p = word_of_nat (dec_value ds)" by blast
  from d(2) have "sint (word_of_nat (dec_value ds) :: 32 word) = int (dec_value ds)"
    by (rule sint_word_of_nat_32)
  with d show ?thesis by simp
qed

lemma single_string:
  assumes "cfg (GoString ''endpoint'') = Some (GoString e)"
  shows "singlePortFromConfigEndpoint P lg name cfg =
           (case portFromEndpoint e of
              Inl err \<Rightarrow>
                (None, [ErrorEntry (WithValues lg [GoString ''endpoint'', GoString e]) err
                          ''couldn't parse the endpoint's port''])
            | Inr port \<Rightarrow> (Some \<lparr>Name = P name port, Port = port\<rparr>, []))"
  using assms
  by (simp add: singlePortFromConfigEndpoint_def getAddressFromConfig_def endpointKey_def
      split: sum.splits)

lemma single_absent:
  assumes "cfg (GoString ''endpoint'') = None"
  shows "singlePortFromConfigEndpoint P lg name cfg =
           (None, [InfoEntry (V 2 lg) ''%s exporter doesn't have an %s''
                     [GoString name, GoString ''endpoint'']])"
  using assms
  by (simp add: singlePortFromConfigEndpoint_def getAddressFromConfig_def endpointKey_def)

lemma single_other:
  assumes "cfg (GoString ''endpoint'') = Some v" and "\<forall>e. v \<noteq> GoString e"
  shows "fst (singlePortFromConfigEndpoint P lg name cfg) = None"
  using assms
  by (cases v)
    (simp_all add: singlePortFromConfigEndpoint_def getAddressFromConfig_def endpointKey_def)

lemma single_Some:
  assumes "fst (singlePortFromConfigEndpoint P lg name cfg) = Some sp"
  shows "\<exists>e p. cfg (GoString ''endpoint'') = Some (GoString e) \<and> portFromEndpoint e = Inr p
           \<and> sp = \<lparr>Name = P name p, Port = p\<rparr>"
proof (cases "cfg (GoString ''endpoint'')")
  case None
  with assms show ?thesis by (simp add: single_absent)
next
  case (Some v)
  show ?thesis
  proof (cases "\<exists>e. v = GoString e")
    case True
    then obtain e where v: "v = GoString e" by blast
    with Some assms show ?thesis by (auto simp: single_string split: sum.splits)
  next
    case False
    with Some assms single_other [of cfg v P lg name] show ?thesis by simp
  qed
qed

section \<open>The properties\<close>

subsection \<open>C1\<close>

text \<open>
  Claim C1, as the code has it. \<open>Register\<close> stores the builder under the raw name, while
  \<open>BuilderFor\<close> looks up the normalized name. So for a type name \<open>t\<close> without a "/"
  qualifier, \<open>BuilderFor t\<close> after \<open>Register t b\<close> is exactly \<open>b\<close>; and \<open>BuilderFor n\<close>
  is \<open>b\<close> for every name \<open>n\<close> whose normalized form is \<open>t\<close>, such as "otlp/2" after a
  registration under "otlp".
\<close>

theorem C1_register_roundtrip:
  "(CHR ''/'' \<notin> set t \<longrightarrow> BuilderFor (Register g t b) t = b) \<and>
   (ComponentType n = t \<longrightarrow> BuilderFor (Register g t b) n = b)"
proof -
  have "ComponentType t = t" if "CHR ''/'' \<notin> set t"
    unfolding ComponentType_def using that by (intro takeWhile_eq_all_conv [THEN iffD2]) auto
  then show ?thesis by (auto simp: BuilderFor_def Register_def)
qed

text \<open>
  The claim as stated fails for a qualified name: a builder registered under "otlp/2" is
  stored under that raw key, and \<open>BuilderFor\<close> of "otlp/2" reads the key "otlp".
\<close>

theorem C1_register_raw_key_counterexample:
  "BuilderFor (Register (init_globals :: (unit, unit) globals) ''otlp/2''
       (Some (\<lambda>lg name cfg. ()))) ''otlp/2'' = None \<and>
   BuilderFor (Register (init_globals :: (unit, unit) globals) ''otlp/2''
       (Some (\<lambda>lg name cfg. ()))) ''otlp/2'' \<noteq> Some (\<lambda>lg name cfg. ())"
  by (simp add: BuilderFor_def Register_def init_globals_def ComponentType_def)

text \<open>
  An instance, on the initial tables.
\<close>

theorem C1_register_roundtrip_witness:
  "CHR ''/'' \<notin> set ''otlp'' \<and> ComponentType ''otlp/2'' = ''otlp'' \<and>
   BuilderFor (Register (init_globals :: (unit, unit) globals) ''otlp''
       (Some (\<lambda>lg name cfg. ()))) ''otlp'' = Some (\<lambda>lg name cfg. ()) \<and>
   BuilderFor (Register (init_globals :: (unit, unit) globals) ''otlp''
       (Some (\<lambda>lg name cfg. ()))) ''otlp/2'' = Some (\<lambda>lg name cfg. ())"
  using C1_register_roundtrip [of "''otlp''" "init_globals :: (unit, unit) globals"
      "Some (\<lambda>lg name cfg. ())" "''otlp/2''"]
  by (simp add: ComponentType_def)

subsection \<open>C2\<close>

text \<open>
  Claim C2. \<open>singlePortFromConfigEndpoint\<close> returns a descriptor or none, never an error:
  an absent "endpoint" key, an "endpoint" value that is not a string, and a string whose
  port fails to parse all give none; and whenever a descriptor is returned, the endpoint is
  a string whose port was parsed.
\<close>

theorem C2_graceful_degradation:
  "(cfg (GoString ''endpoint'') = None \<longrightarrow>
      fst (singlePortFromConfigEndpoint P lg name cfg) = None) \<and>
   (\<forall>v. cfg (GoString ''endpoint'') = Some v \<and> (\<forall>e. v \<noteq> GoString e) \<longrightarrow>
      fst (singlePortFromConfigEndpoint P lg name cfg) = None) \<and>
   (\<forall>e err. cfg (GoString ''endpoint'') = Some (GoString e) \<and> portFromEndpoint e = Inl err \<longrightarrow>
      fst (singlePortFromConfigEndpoint P lg name cfg) = None) \<and>
   (fst (singlePortFromConfigEndpoint P lg name cfg) = None \<or>
    (\<exists>e p. cfg (GoString ''endpoint'') = Some (GoString e) \<and> portFromEndpoint e = Inr p \<and>
       fst (singlePortFromConfigEndpoint P lg name cfg) = Some \<lparr>Name = P name p, Port = p\<rparr>))"
proof (intro conjI allI impI)
  assume "cfg (GoString ''endpoint'') = None"
  then show "fst (singlePortFromConfigEndpoint P lg name cfg) = None"
    by (simp add: single_absent)
next
  fix v
  assume "cfg (GoString ''endpoint'') = Some v \<and> (\<forall>e. v \<noteq> GoString e)"
  then show "fst (singlePortFromConfigEndpoint P lg name cfg) = None"
    using single_other by blast
next
  fix e err
  assume "cfg (GoString ''endpoint'') = Some (GoString e) \<and> portFromEndpoint e = Inl err"
  then show "fst (singlePortFromConfigEndpoint P lg name cfg) = None"
    by (simp add: single_string)
next
  show "fst (singlePortFromConfigEndpoint P lg name cfg) = None \<or>
    (\<exists>e p. cfg (GoString ''endpoint'') = Some (GoString e) \<and> portFromEndpoint e = Inr p \<and>
       fst (singlePortFromConfigEndpoint P lg name cfg) = Some \<lparr>Name = P name p, Port = p\<rparr>)"
  proof (cases "fst (singlePortFromConfigEndpoint P lg name cfg)")
    case None
    then show ?thesis by simp
  next
    case (Some sp)
    from single_Some [OF Some] Some show ?thesis by auto
  qed
qed

text \<open>
  Instances: an empty configuration, an integer endpoint, and the endpoint "localhost:abc".
\<close>

theorem C2_graceful_degradation_witness:
  "fst (singlePortFromConfigEndpoint (\<lambda>name port. name) \<lparr>lg_level = 0, lg_values = []\<rparr> ''otlp''
          Map.empty) = None \<and>
   fst (singlePortFromConfigEndpoint (\<lambda>name port. name) \<lparr>lg_level = 0, lg_values = []\<rparr> ''otlp''
          [GoString ''endpoint'' \<mapsto> GoInt 4317]) = None \<and>
   portFromEndpoint ''localhost:abc'' = Inl (ErrorsNew ''port should not be empty'') \<and>
   fst (singlePortFromConfigEndpoint (\<lambda>name port. name) \<lparr>lg_level = 0, lg_values = []\<rparr> ''otlp''
          [GoString ''endpoint'' \<mapsto> GoString ''localhost:abc'']) = None"
proof -
  have pe: "portFromEndpoint ''localhost:abc'' = Inl (ErrorsNew ''port should not be empty'')"
    by (simp add: portFromEndpoint_def MatchString_def is_digit_def)
  show ?thesis
    using pe
      C2_graceful_degradation [of Map.empty "\<lambda>name port. name"
        "\<lparr>lg_level = 0, lg_values = []\<rparr>" "''otlp''"]
      C2_graceful_degradation [of "[GoString ''endpoint'' \<mapsto> GoInt 4317]" "\<lambda>name port. name"
        "\<lparr>lg_level = 0, lg_values = []\<rparr>" "''otlp''"]
      C2_graceful_degradation [of "[GoString ''endpoint'' \<mapsto> GoString ''localhost:abc'']"
        "\<lambda>name port. name" "\<lparr>lg_level = 0, lg_values = []\<rparr>" "''otlp''"]
    by simp
qed

subsection \<open>C3\<close>

text \<open>
  Claim C3. An endpoint with at least one colon-digits run has a leftmost such run; for that
  run, \<open>FindString\<close> returns exactly the colon and its digits, and a port returned by
  \<open>portFromEndpoint\<close> is the base-10 value of those digits (any non-zero value below
  \<open>2 ^ 31\<close> is returned). In particular "localhost:4317" gives 4317.
\<close>

theorem C3_first_match:
  assumes "has_colon_digits e"
  shows "(\<exists>pre ds rest. first_run e pre ds rest) \<and>
         (\<forall>pre ds rest. first_run e pre ds rest \<longrightarrow>
            FindString e = Some (CHR '':'' # ds) \<and>
            (\<forall>p. portFromEndpoint e = Inr p \<longrightarrow> sint p = int (dec_value ds)) \<and>
            (0 < dec_value ds \<and> dec_value ds < 2 ^ 31 \<longrightarrow>
               portFromEndpoint e = Inr (word_of_nat (dec_value ds)))) \<and>
         portFromEndpoint ''localhost:4317'' = Inr 4317"
proof (intro conjI allI impI)
  show "\<exists>pre ds rest. first_run e pre ds rest"
    using assms by (rule first_run_exists)
next
  fix pre ds rest
  assume "first_run e pre ds rest"
  then show "FindString e = Some (CHR '':'' # ds)" by (rule FindString_first_run)
next
  fix pre ds rest p
  assume fr: "first_run e pre ds rest" and p: "portFromEndpoint e = Inr p"
  from portFromEndpoint_first_run [OF fr] p
  have "dec_value ds < 2 ^ 31" and "p = word_of_nat (dec_value ds)"
    by (auto split: if_splits)
  then show "sint p = int (dec_value ds)" by (simp add: sint_word_of_nat_32)
next
  fix pre ds rest
  assume fr: "first_run e pre ds rest" and "0 < dec_value ds \<and> dec_value ds < 2 ^ 31"
  with portFromEndpoint_first_run [OF fr]
  show "portFromEndpoint e = Inr (word_of_nat (dec_value ds))" by simp
next
  have fr: "first_run ''localhost:4317'' ''localhost'' ''4317'' []"
    by (simp add: first_run_def is_digit_def)
  have "dec_value ''4317'' = 4317" by (simp add: dec_value_def digit_val_def)
  with portFromEndpoint_first_run [OF fr]
  show "portFromEndpoint ''localhost:4317'' = Inr 4317" by simp
qed

text \<open>
  An instance with several colons: in "[::1]:4317" the leftmost run is ":1".
\<close>

theorem C3_first_match_witness:
  "has_colon_digits ''[::1]:4317'' \<and>
   first_run ''[::1]:4317'' ''[:'' ''1'' '']:4317'' \<and>
   FindString ''[::1]:4317'' = Some '':1'' \<and>
   dec_value ''1'' = 1 \<and>
   portFromEndpoint ''[::1]:4317'' = Inr 1"
proof -
  have h: "has_colon_digits ''[::1]:4317''" by (simp add: is_digit_def)
  have fr: "first_run ''[::1]:4317'' ''[:'' ''1'' '']:4317''"
    by (simp add: first_run_def is_digit_def)
  have d: "dec_value ''1'' = 1" by (simp add: dec_value_def digit_val_def)
  from C3_first_match [OF h]
  have run: "\<forall>pre ds rest. first_run ''[::1]:4317'' pre ds rest \<longrightarrow>
            FindString ''[::1]:4317'' = Some (CHR '':'' # ds) \<and>
            (\<forall>p. portFromEndpoint ''[::1]:4317'' = Inr p \<longrightarrow> sint p = int (dec_value ds)) \<and>
            (0 < dec_value ds \<and> dec_value ds < 2 ^ 31 \<longrightarrow>
               portFromEndpoint ''[::1]:4317'' = Inr (word_of_nat (dec_value ds)))"
    by (rule conjunct2 [THEN conjunct1])
  from run fr have a: "FindString ''[::1]:4317'' = Some '':1''" by blast
  from run fr have "0 < dec_value ''1'' \<and> dec_value ''1'' < 2 ^ 31 \<longrightarrow>
      portFromEndpoint ''[::1]:4317'' = Inr (word_of_nat (dec_value ''1''))" by blast
  with d have b: "portFromEndpoint ''[::1]:4317'' = Inr 1" by simp
  from h fr a d b show ?thesis by (intro conjI)
qed

subsection \<open>C4\<close>

text \<open>
  Claim C4, as the code has it. The port of a descriptor returned by
  \<open>singlePortFromConfigEndpoint\<close> lies between 1 and \<open>2 ^ 31 - 1\<close>: the code rejects zero
  and what does not fit a signed 32-bit integer, and checks no other upper bound.
\<close>

theorem C4_port_range:
  assumes "fst (singlePortFromConfigEndpoint P lg name cfg) = Some sp"
  shows "1 \<le> sint (Port sp) \<and> sint (Port sp) \<le> 2147483647"
proof -
  from single_Some [OF assms] obtain e p where
    "portFromEndpoint e = Inr p" and "sp = \<lparr>Name = P name p, Port = p\<rparr>" by blast
  with portFromEndpoint_Inr_sint [of e p] show ?thesis by simp
qed

text \<open>
  The bound 65535 of the claim as stated fails: the endpoint "localhost:70000" gives a
  descriptor with port 70000.
\<close>

theorem C4_port_above_65535_counterexample:
  "fst (singlePortFromConfigEndpoint (\<lambda>name port. name) \<lparr>lg_level = 0, lg_values = []\<rparr> ''otlp''
          [GoString ''endpoint'' \<mapsto> GoString ''localhost:70000''])
     = Some \<lparr>Name = ''otlp'', Port = 70000\<rparr> \<and>
   sint (70000 :: 32 word) = 70000 \<and> \<not> sint (70000 :: 32 word) \<le> 65535"
proof -
  have fr: "first_run ''localhost:70000'' ''localhost'' ''70000'' []"
    by (simp add: first_run_def is_digit_def)
  have "dec_value ''70000'' = 70000" by (simp add: dec_value_def digit_val_def)
  with portFromEndpoint_first_run [OF fr]
  have "portFromEndpoint ''localhost:70000'' = Inr 70000" by simp
  then show ?thesis by (simp add: single_string)
qed

text \<open>
  An instance, with the endpoint "localhost:4317".
\<close>

theorem C4_port_range_witness:
  "fst (singlePortFromConfigEndpoint (\<lambda>name port. name) \<lparr>lg_level = 0, lg_values = []\<rparr> ''otlp''
          [GoString ''endpoint'' \<mapsto> GoString ''localhost:4317''])
     = Some \<lparr>Name = ''otlp'', Port = 4317\<rparr> \<and>
   1 \<le> sint (4317 :: 32 word) \<and> sint (4317 :: 32 word) \<le> 2147483647"
proof -
  have fr: "first_run ''localhost:4317'' ''localhost'' ''4317'' []"
    by (simp add: first_run_def is_digit_def)
  have "dec_value ''4317'' = 4317" by (simp add: dec_value_def digit_val_def)
  with portFromEndpoint_first_run [OF fr]
  have "portFromEndpoint ''localhost:4317'' = Inr 4317" by simp
  then have s: "fst (singlePortFromConfigEndpoint (\<lambda>name port. name)
          \<lparr>lg_level = 0, lg_values = []\<rparr> ''otlp''
          [GoString ''endpoint'' \<mapsto> GoString ''localhost:4317''])
     = Some \<lparr>Name = ''otlp'', Port = 4317\<rparr>" by (simp add: single_string)
  from C4_port_range [OF s] s show ?thesis by simp
qed

subsection \<open>C5\<close>

text \<open>
  Claim C5. When the "endpoint" value is a string from which \<open>portFromEndpoint\<close> extracts
  the port \<open>p\<close>, the descriptor returned has port \<open>p\<close> and the name that the naming
  function gives for the exporter name and \<open>p\<close>, and nothing is logged; for
  "0.0.0.0:4317" on exporter "otlp" the port is 4317 and the name that of ("otlp", 4317).
\<close>

theorem C5_descriptor_fields:
  "(cfg (GoString ''endpoint'') = Some (GoString e) \<and> portFromEndpoint e = Inr p \<longrightarrow>
      singlePortFromConfigEndpoint P lg name cfg = (Some \<lparr>Name = P name p, Port = p\<rparr>, [])) \<and>
   singlePortFromConfigEndpoint P lg ''otlp'' [GoString ''endpoint'' \<mapsto> GoString ''0.0.0.0:4317'']
     = (Some \<lparr>Name = P ''otlp'' 4317, Port = 4317\<rparr>, [])"
proof (intro conjI impI)
  assume "cfg (GoString ''endpoint'') = Some (GoString e) \<and> portFromEndpoint e = Inr p"
  then show "singlePortFromConfigEndpoint P lg name cfg
               = (Some \<lparr>Name = P name p, Port = p\<rparr>, [])"
    by (simp add: single_string)
next
  have fr: "first_run ''0.0.0.0:4317'' ''0.0.0.0'' ''4317'' []"
    by (simp add: first_run_def is_digit_def)
  have "dec_value ''4317'' = 4317" by (simp add: dec_value_def digit_val_def)
  with portFromEndpoint_first_run [OF fr]
  have "portFromEndpoint ''0.0.0.0:4317'' = Inr 4317" by simp
  then show "singlePortFromConfigEndpoint P lg ''otlp''
        [GoString ''endpoint'' \<mapsto> GoString ''0.0.0.0:4317'']
     = (Some \<lparr>Name = P ''otlp'' 4317, Port = 4317\<rparr>, [])"
    by (simp add: single_string)
qed

text \<open>
  An instance, with the endpoint "collector:55680" on exporter "jaeger".
\<close>

theorem C5_descriptor_fields_witness:
  "portFromEndpoint ''collector:55680'' = Inr 55680 \<and>
   singlePortFromConfigEndpoint (\<lambda>name port. name) \<lparr>lg_level = 0, lg_values = []\<rparr> ''jaeger''
       [GoString ''endpoint'' \<mapsto> GoString ''collector:55680'']
     = (Some \<lparr>Name = ''jaeger'', Port = 55680\<rparr>, [])"
proof -
  have fr: "first_run ''collector:55680'' ''collector'' ''55680'' []"
    by (simp add: first_run_def is_digit_def)
  have "dec_value ''55680'' = 55680" by (simp add: dec_value_def digit_val_def)
  with portFromEndpoint_first_run [OF fr]
  have pe: "portFromEndpoint ''collector:55680'' = Inr 55680" by simp
  with C5_descriptor_fields [of "[GoString ''endpoint'' \<mapsto> GoString ''collector:55680'']"
      "''collector:55680''" 55680 "\<lambda>name port. name" "\<lparr>lg_level = 0, lg_values = []\<rparr>" "''jaeger''"]
  show ?thesis by simp
qed

subsection \<open>C6\<close>

text \<open>
  Claim C6. \<open>portFromEndpoint\<close> fails with "port should not be empty" when the endpoint
  has no colon-digits run, and when the digits of its leftmost run have the value zero;
  "localhost", "localhost:abc" and "localhost:0" are instances.
\<close>

theorem C6_port_should_not_be_empty:
  "(\<not> has_colon_digits e \<longrightarrow>
      portFromEndpoint e = Inl (ErrorsNew ''port should not be empty'')) \<and>
   (\<forall>pre ds rest. first_run e pre ds rest \<and> dec_value ds = 0 \<longrightarrow>
      portFromEndpoint e = Inl (ErrorsNew ''port should not be empty'')) \<and>
   portFromEndpoint ''localhost'' = Inl (ErrorsNew ''port should not be empty'') \<and>
   portFromEndpoint ''localhost:abc'' = Inl (ErrorsNew ''port should not be empty'') \<and>
   portFromEndpoint ''localhost:0'' = Inl (ErrorsNew ''port should not be empty'')"
proof (intro conjI allI impI)
  assume "\<not> has_colon_digits e"
  then show "portFromEndpoint e = Inl (ErrorsNew ''port should not be empty'')"
    by (rule portFromEndpoint_no_match)
next
  fix pre ds rest
  assume "first_run e pre ds rest \<and> dec_value ds = 0"
  then show "portFromEndpoint e = Inl (ErrorsNew ''port should not be empty'')"
    using portFromEndpoint_first_run [of e pre ds rest] by simp
next
  have "\<not> has_colon_digits ''localhost''" by simp
  then show "portFromEndpoint ''localhost'' = Inl (ErrorsNew ''port should not be empty'')"
    by (rule portFromEndpoint_no_match)
next
  have "\<not> has_colon_digits ''localhost:abc''" by (simp add: is_digit_def)
  then show "portFromEndpoint ''localhost:abc'' = Inl (ErrorsNew ''port should not be empty'')"
    by (rule portFromEndpoint_no_match)
next
  have fr: "first_run ''localhost:0'' ''localhost'' ''0'' []"
    by (simp add: first_run_def is_digit_def)
  have "dec_value ''0'' = 0" by (simp add: dec_value_def digit_val_def)
  with portFromEndpoint_first_run [OF fr]
  show "portFromEndpoint ''localhost:0'' = Inl (ErrorsNew ''port should not be empty'')"
    by simp
qed

text \<open>
  Instances: "http://collector" has no run, and the leftmost run of "collector:000/v1" is zero.
\<close>

theorem C6_port_should_not_be_empty_witness:
  "\<not> has_colon_digits ''http://collector'' \<and>
   portFromEndpoint ''http://collector'' = Inl (ErrorsNew ''port should not be empty'') \<and>
   first_run ''collector:000/v1'' ''collector'' ''000'' ''/v1'' \<and> dec_value ''000'' = 0 \<and>
   portFromEndpoint ''collector:000/v1'' = Inl (ErrorsNew ''port should not be empty'')"
proof -
  have n: "\<not> has_colon_digits ''http://collector''" by (simp add: is_digit_def)
  have fr: "first_run ''collector:000/v1'' ''collector'' ''000'' ''/v1''"
    by (simp add: first_run_def is_digit_def)
  have d: "dec_value ''000'' = 0" by (simp add: dec_value_def digit_val_def)
  from C6_port_should_not_be_empty [of "''http://collector''"] n
  have a: "portFromEndpoint ''http://collector'' = Inl (ErrorsNew ''port should not be empty'')"
    by blast
  from C6_port_should_not_be_empty [of "''collector:000/v1''"] fr d
  have b: "portFromEndpoint ''collector:000/v1'' = Inl (ErrorsNew ''port should not be empty'')"
    by blast
  from n a fr d b show ?thesis by (intro conjI)
qed

subsection \<open>C7\<close>

text \<open>
  Claim C7. The digits of the leftmost run are read in base 10. A value of \<open>2 ^ 31\<close> or
  more is a range error of \<open>ParseInt\<close>, which \<open>portFromEndpoint\<close> returns instead of a
  port; \<open>singlePortFromConfigEndpoint\<close> then returns none and emits one error entry that
  carries this error and the raw endpoint.
\<close>

theorem C7_int32_overflow_absorbed:
  assumes "first_run e pre ds rest"
  shows "(0 < dec_value ds \<and> dec_value ds < 2 ^ 31 \<longrightarrow>
            portFromEndpoint e = Inr (word_of_nat (dec_value ds))) \<and>
         (2 ^ 31 \<le> dec_value ds \<longrightarrow>
            portFromEndpoint e = Inl (NumError ''ParseInt'' ds ErrRange) \<and>
            (cfg (GoString ''endpoint'') = Some (GoString e) \<longrightarrow>
               singlePortFromConfigEndpoint P lg name cfg =
                 (None, [ErrorEntry (WithValues lg [GoString ''endpoint'', GoString e])
                           (NumError ''ParseInt'' ds ErrRange)
                           ''couldn't parse the endpoint's port''])))"
  using portFromEndpoint_first_run [OF assms] by (simp add: single_string)

text \<open>
  An instance: 2147483648 is the least value that does not fit.
\<close>

theorem C7_int32_overflow_absorbed_witness:
  "first_run ''localhost:2147483648'' ''localhost'' ''2147483648'' [] \<and>
   dec_value ''2147483648'' = 2147483648 \<and>
   portFromEndpoint ''localhost:2147483648'' = Inl (NumError ''ParseInt'' ''2147483648'' ErrRange) \<and>
   singlePortFromConfigEndpoint (\<lambda>name port. name) \<lparr>lg_level = 0, lg_values = []\<rparr> ''otlp''
       [GoString ''endpoint'' \<mapsto> GoString ''localhost:2147483648'']
     = (None, [ErrorEntry \<lparr>lg_level = 0, lg_values = [GoString ''endpoint'', GoString ''localhost:2147483648'']\<rparr>
                 (NumError ''ParseInt'' ''2147483648'' ErrRange)
                 ''couldn't parse the endpoint's port''])"
proof -
  have fr: "first_run ''localhost:2147483648'' ''localhost'' ''2147483648'' []"
    by (simp add: first_run_def is_digit_def)
  have d: "dec_value ''2147483648'' = 2147483648" by (simp add: dec_value_def digit_val_def)
  from C7_int32_overflow_absorbed [OF fr,
      of "[GoString ''endpoint'' \<mapsto> GoString ''localhost:2147483648'']"
      "\<lambda>name port. name" "\<lparr>lg_level = 0, lg_values = []\<rparr>" "''otlp''"] d fr
  show ?thesis by (simp add: WithValues_def)
qed

subsection \<open>C8\<close>

text \<open>
  Claim C8. When the table has no entry under the normalized form of a name,
  \<open>BuilderFor\<close> returns the nil builder and \<open>For\<close> returns the error
  "no builders for <name>" and no parser; the same holds for \<open>AuthzBuilderFor\<close> and
  \<open>AuthzFor\<close> over the authorization table.
\<close>

theorem C8_unregistered:
  "(registry g (ComponentType name) = None \<longrightarrow>
      BuilderFor g name = None \<and>
      For g lg name cfg = Inl (Errorf (''no builders for '' @ name))) \<and>
   (authzRegistry g (ComponentType name) = None \<longrightarrow>
      AuthzBuilderFor g name = None \<and>
      AuthzFor g lg name cfg = Inl (Errorf (''no builders for '' @ name)))"
  by (simp add: BuilderFor_def For_def AuthzBuilderFor_def AuthzFor_def)

text \<open>
  An instance, on the initial tables.
\<close>

theorem C8_unregistered_witness:
  "registry (init_globals :: (unit, unit) globals) (ComponentType ''otlp/2'') = None \<and>
   BuilderFor (init_globals :: (unit, unit) globals) ''otlp/2'' = None \<and>
   For (init_globals :: (unit, unit) globals) \<lparr>lg_level = 0, lg_values = []\<rparr> ''otlp/2'' Map.empty
     = Inl (Errorf ''no builders for otlp/2'') \<and>
   authzRegistry (init_globals :: (unit, unit) globals) (ComponentType ''otlp/2'') = None \<and>
   AuthzBuilderFor (init_globals :: (unit, unit) globals) ''otlp/2'' = None \<and>
   AuthzFor (init_globals :: (unit, unit) globals) \<lparr>lg_level = 0, lg_values = []\<rparr> ''otlp/2'' Map.empty
     = Inl (Errorf ''no builders for otlp/2'')"
  using C8_unregistered [of "init_globals :: (unit, unit) globals" "''otlp/2''"
      "\<lparr>lg_level = 0, lg_values = []\<rparr>" Map.empty]
  by (simp add: init_globals_def)

subsection \<open>C9\<close>

text \<open>
  Claim C9. \<open>Register\<close> leaves the authorization table, and with it the results of
  \<open>AuthzBuilderFor\<close> and \<open>AuthzFor\<close>, unchanged; \<open>AuthzRegister\<close> leaves the port
  table, and with it the results of \<open>BuilderFor\<close>, \<open>For\<close> and \<open>IsRegistered\<close>,
  unchanged.
\<close>

theorem C9_registry_independence:
  "authzRegistry (Register g n b) = authzRegistry g \<and>
   AuthzBuilderFor (Register g n b) m = AuthzBuilderFor g m \<and>
   AuthzFor (Register g n b) lg m cfg = AuthzFor g lg m cfg \<and>
   registry (AuthzRegister g n a) = registry g \<and>
   BuilderFor (AuthzRegister g n a) m = BuilderFor g m \<and>
   For (AuthzRegister g n a) lg m cfg = For g lg m cfg \<and>
   IsRegistered (AuthzRegister g n a) m = IsRegistered g m"
  by (simp add: Register_def AuthzRegister_def BuilderFor_def For_def AuthzBuilderFor_def
      AuthzFor_def IsRegistered_def)

subsection \<open>C10\<close>

text \<open>
  Claim C10. \<open>IsRegistered n\<close> holds exactly when \<open>n\<close> is a key of the table, with no
  normalization. After \<open>Register\<close> under "otlp", on a table without the key "otlp/2"
  (the initial table is one), \<open>IsRegistered\<close> of "otlp/2" is false although
  \<open>BuilderFor\<close> of "otlp/2" returns the builder registered.
\<close>

theorem C10_IsRegistered_raw_key:
  "(IsRegistered g n \<longleftrightarrow> n \<in> dom (registry g)) \<and>
   (registry g ''otlp/2'' = None \<longrightarrow>
      \<not> IsRegistered (Register g ''otlp'' b) ''otlp/2'' \<and>
      BuilderFor (Register g ''otlp'' b) ''otlp/2'' = b) \<and>
   \<not> IsRegistered (Register init_globals ''otlp'' b) ''otlp/2'' \<and>
   BuilderFor (Register init_globals ''otlp'' b) ''otlp/2'' = b"
  by (auto simp: IsRegistered_def Register_def BuilderFor_def ComponentType_def init_globals_def
      split: option.splits)

text \<open>
  An instance, on a table that holds a nil builder under "jaeger".
\<close>

theorem C10_IsRegistered_raw_key_witness:
  "registry (Register (init_globals :: (unit, unit) globals) ''jaeger'' None) ''otlp/2'' = None \<and>
   \<not> IsRegistered (Register (Register (init_globals :: (unit, unit) globals) ''jaeger'' None)
        ''otlp'' (Some (\<lambda>lg name cfg. ()))) ''otlp/2'' \<and>
   BuilderFor (Register (Register (init_globals :: (unit, unit) globals) ''jaeger'' None)
        ''otlp'' (Some (\<lambda>lg name cfg. ()))) ''otlp/2'' = Some (\<lambda>lg name cfg. ()) \<and>
   IsRegistered (Register (init_globals :: (unit, unit) globals) ''jaeger'' None) ''jaeger''"
proof -
  let ?g = "Register (init_globals :: (unit, unit) globals) ''jaeger'' None"
  let ?b = "Some (\<lambda>lg name cfg. ()) :: unit builder"
  have h: "registry ?g ''otlp/2'' = None" by (simp add: Register_def init_globals_def)
  have k: "''jaeger'' \<in> dom (registry ?g)" by (simp add: Register_def)
  note inst = C10_IsRegistered_raw_key [of ?g "''jaeger''" ?b]
  from inst h have a: "\<not> IsRegistered (Register ?g ''otlp'' ?b) ''otlp/2''" by blast
  from inst h have c: "BuilderFor (Register ?g ''otlp'' ?b) ''otlp/2'' = ?b" by blast
  from inst k have d: "IsRegistered ?g ''jaeger''" by blast
  from h a c d show ?thesis by (intro conjI)
qed

end
